theory Spec2Isabelle
  imports Main
begin

section \<open>The TechStore demo page and its script\<close>

text \<open>
  The page is static HTML followed by one inline script. The script adds no element,
  removes none, and changes no id, class or data attribute, so the elements are a
  constant list; what the script writes (the cart array, the text of one span, the
  value of one input) and what the user edits (the values of the form controls) is the
  state.

  An element is listed when it carries an id or a class, or is a button: these are the
  elements a class selector or \<^verbatim>\<open>getElementById\<close> can find, in document order. An
  element's number in the list is its identity. Attributes the script never reads
  (href, style, type, placeholder, for, data-product-id, data-category, data-price,
  data-stock) are left out.
\<close>

record element =
  tag :: string
  ident :: "string option"
  classes :: "string list"
  data_product :: "string option"
  disabled :: bool
  content :: string
  control_value :: "string option"
  control_checked :: bool

text \<open>
  \<open>ident\<close> is the id attribute, \<open>classes\<close> the class attribute split at spaces,
  \<open>data_product\<close> the attribute \<^verbatim>\<open>data-product\<close> (read by the script as
  \<^verbatim>\<open>dataset.product\<close>, undefined when absent), \<open>content\<close> the text of an element
  whose children are text only (empty for an element with element children),
  \<open>control_value\<close> the value a form control has when the page is loaded (undefined for
  an element that is no form control), \<open>control_checked\<close> the \<^verbatim>\<open>checked\<close> attribute.
\<close>

definition el :: "string \<Rightarrow> string option \<Rightarrow> string list \<Rightarrow> string \<Rightarrow> element" where
  "el t i cs txt =
     \<lparr>tag = t, ident = i, classes = cs, data_product = None, disabled = False,
      content = txt, control_value = None, control_checked = False\<rparr>"

definition add_button :: "string \<Rightarrow> element" where
  "add_button p = (el ''button'' None [''btn'', ''add-to-cart''] ''Add to Cart'')\<lparr>data_product := Some p\<rparr>"

definition details_button :: element where
  "details_button = el ''button'' None [''btn''] ''View Details''"

definition sold_out_button :: element where
  "sold_out_button = (el ''button'' None [''btn''] ''Out of Stock'')\<lparr>disabled := True\<rparr>"

definition product_card :: "string \<Rightarrow> string \<Rightarrow> string \<Rightarrow> string \<Rightarrow> element \<Rightarrow> element list" where
  "product_card title descr price stock button =
     [el ''div'' None [''product-card''] '''',
      el ''div'' None [''product-image''] '''',
      el ''h3'' None [''product-title''] title,
      el ''p'' None [''product-description''] descr,
      el ''div'' None [''price''] price,
      el ''div'' None [''stock-status''] stock,
      button,
      details_button]"

definition page :: "element list" where
  "page =
     [el ''header'' None [''header''] '''',
      el ''nav'' None [''nav''] '''',
      el ''div'' None [''logo''] ''TechStore'',
      el ''ul'' None [''nav-menu''] '''',
      el ''a'' (Some ''nav-home'') [] ''Home'',
      el ''a'' (Some ''nav-products'') [] ''Products'',
      el ''a'' (Some ''nav-deals'') [] ''Deals'',
      el ''a'' (Some ''nav-support'') [] ''Support'',
      el ''a'' (Some ''nav-about'') [] ''About'',
      (el ''input'' (Some ''search-input'') [''search-bar''] '''')\<lparr>control_value := Some ''''\<rparr>,
      el ''button'' (Some ''search-btn'') [''btn''] ''Search'',
      el ''span'' (Some ''cart-icon'') [''cart-icon''] ''Cart (0)'',
      el ''section'' None [''hero''] '''',
      el ''div'' None [''container''] '''',
      el ''button'' (Some ''shop-now-btn'') [''btn''] ''Shop Now'',
      el ''main'' None [''container''] '''',
      el ''div'' None [''filters''] '''',
      el ''div'' None [''filter-group''] '''',
      (el ''select'' (Some ''category-filter'') [] '''')\<lparr>control_value := Some ''''\<rparr>,
      el ''div'' None [''filter-group''] '''',
      (el ''select'' (Some ''price-filter'') [] '''')\<lparr>control_value := Some ''''\<rparr>,
      el ''div'' None [''filter-group''] '''',
      (el ''input'' (Some ''in-stock-filter'') [] '''')
         \<lparr>control_value := Some ''on'', control_checked := True\<rparr>,
      el ''button'' (Some ''apply-filters'') [''btn''] ''Apply Filters'',
      el ''div'' (Some ''product-grid'') [''product-grid''] '''']
     @ product_card ''Gaming Laptop Pro''
         ''High-performance gaming laptop with RTX 4070 and 32GB RAM''
         ''$1,299.99'' ''In Stock (5 available)'' (add_button ''1'')
     @ product_card ''Smartphone X Pro''
         ''Latest flagship smartphone with 256GB storage and triple camera''
         ''$899.99'' ''In Stock (12 available)'' (add_button ''2'')
     @ product_card ''Wireless Headphones''
         ''Premium noise-cancelling wireless headphones with 30hr battery''
         ''$79.99'' ''Out of Stock'' sold_out_button
     @ product_card ''Gaming Mouse RGB''
         ''Professional gaming mouse with customizable RGB lighting''
         ''$199.99'' ''In Stock (8 available)'' (add_button ''4'')
     @ product_card (''MacBook Pro 16'' @ [CHR 0x22])
         ''Apple MacBook Pro with M3 Max chip and 64GB unified memory''
         ''$2,499.99'' ''In Stock (3 available)'' (add_button ''5'')
     @ product_card ''USB-C Hub''
         ''7-in-1 USB-C hub with HDMI, USB 3.0, and SD card reader''
         ''$49.99'' ''In Stock (25 available)'' (add_button ''6'')
     @ [el ''div'' (Some ''newsletter-signup'') [] '''',
        el ''form'' (Some ''newsletter-form'') [] '''',
        (el ''input'' (Some ''newsletter-email'') [] '''')\<lparr>control_value := Some ''''\<rparr>,
        el ''button'' (Some ''newsletter-submit'') [''btn''] ''Subscribe'',
        el ''footer'' None [''footer''] '''',
        el ''div'' None [''container''] '''']"

subsection \<open>Selectors\<close>

text \<open>
  \<^verbatim>\<open>document.querySelectorAll('.c')\<close>: the elements whose class list holds \<open>c\<close>, in
  document order. \<^verbatim>\<open>document.getElementById(i)\<close>: the first element whose id is \<open>i\<close>,
  or null (\<open>None\<close>).
\<close>

definition querySelectorAll_class :: "string \<Rightarrow> nat list" where
  "querySelectorAll_class c = filter (\<lambda>n. c \<in> set (classes (page ! n))) [0..<length page]"

definition getElementById :: "string \<Rightarrow> nat option" where
  "getElementById i = List.find (\<lambda>n. ident (page ! n) = Some i) [0..<length page]"

definition dataset_product :: "nat \<Rightarrow> string option" where
  "dataset_product n = (if n < length page then data_product (page ! n) else None)"

subsection \<open>State and effects\<close>

datatype js_error = TypeError

datatype effect =
    Alert string
  | ConsoleLog "string option" "string option" bool
  | SetText nat string
  | SetValue nat string
  | Uncaught js_error

text \<open>
  \<open>cart\<close> is the script's array; an entry is what \<^verbatim>\<open>dataset.product\<close> gave (\<open>None\<close> is
  undefined). \<open>texts\<close> is the \<^verbatim>\<open>textContent\<close> of each element, \<open>vals\<close> the value of
  each form control (\<open>None\<close>: the element has no value property), \<open>checks\<close> its checked
  state. \<open>effects\<close> records, in order, what the script does that can be seen from
  outside: alerts, console output, writes to the document, and an exception that
  leaves a handler.

  The length of a JavaScript array is below \<open>2^32\<close>; the model's list is unbounded, so
  it follows the script for every cart a browser can hold.
\<close>

record page_state =
  cart :: "string option list"
  texts :: "nat \<Rightarrow> string"
  vals :: "nat \<Rightarrow> string option"
  checks :: "nat \<Rightarrow> bool"
  effects :: "effect list"

definition init_state :: page_state where
  "init_state =
     \<lparr>cart = [],
      texts = (\<lambda>n. if n < length page then content (page ! n) else ''''),
      vals = (\<lambda>n. if n < length page then control_value (page ! n) else None),
      checks = (\<lambda>n. n < length page \<and> control_checked (page ! n)),
      effects = []\<rparr>"

definition alert :: "string \<Rightarrow> page_state \<Rightarrow> page_state" where
  "alert m s = s\<lparr>effects := effects s @ [Alert m]\<rparr>"

definition console_log :: "string option \<Rightarrow> string option \<Rightarrow> bool \<Rightarrow> page_state \<Rightarrow> page_state" where
  "console_log c p i s = s\<lparr>effects := effects s @ [ConsoleLog c p i]\<rparr>"

definition set_textContent :: "nat \<Rightarrow> string \<Rightarrow> page_state \<Rightarrow> page_state" where
  "set_textContent n t s = s\<lparr>texts := (texts s)(n := t), effects := effects s @ [SetText n t]\<rparr>"

definition set_value :: "nat \<Rightarrow> string \<Rightarrow> page_state \<Rightarrow> page_state" where
  "set_value n v s = s\<lparr>vals := (vals s)(n := Some v), effects := effects s @ [SetValue n v]\<rparr>"

definition throw :: "js_error \<Rightarrow> page_state \<Rightarrow> page_state" where
  "throw e s = s\<lparr>effects := effects s @ [Uncaught e]\<rparr>"

definition cart_push :: "string option \<Rightarrow> page_state \<Rightarrow> page_state" where
  "cart_push x s = s\<lparr>cart := cart s @ [x]\<rparr>"

text \<open>A string is truthy when it is not empty; undefined is falsy.\<close>

definition truthy :: "string option \<Rightarrow> bool" where
  "truthy v = (case v of None \<Rightarrow> False | Some x \<Rightarrow> x \<noteq> [])"

subsection \<open>Numbers in template literals\<close>

text \<open>\<^verbatim>\<open>`${cart.length}`\<close> writes the length in decimal, without leading zeros.\<close>

definition digit :: "nat \<Rightarrow> char" where
  "digit d = ''0123456789'' ! d"

function string_of_nat :: "nat \<Rightarrow> string" where
  "string_of_nat n =
     (if n < 10 then [digit n] else string_of_nat (n div 10) @ [digit (n mod 10)])"
  by pat_completeness auto
termination
  by (relation "measure id") auto

declare string_of_nat.simps [simp del]

subsection \<open>The handlers\<close>

text \<open>
  Each handler follows its function in the script statement by statement. Reading a
  property of null throws a TypeError, which ends the handler; what it did before
  stays done.
\<close>

definition add_to_cart_click :: "nat \<Rightarrow> page_state \<Rightarrow> page_state" where
  "add_to_cart_click this s =
     (let productId = dataset_product this;
          s1 = cart_push productId s
      in case getElementById ''cart-icon'' of
           None \<Rightarrow> throw TypeError s1
         | Some icon \<Rightarrow>
             alert ''Product added to cart!''
               (set_textContent icon
                  (''Cart ('' @ string_of_nat (length (cart s1)) @ '')'') s1))"

definition search_click :: "page_state \<Rightarrow> page_state" where
  "search_click s =
     (case getElementById ''search-input'' of
        None \<Rightarrow> throw TypeError s
      | Some inp \<Rightarrow>
          (let query = vals s inp
           in if truthy query
              then alert (''Searching for: '' @ (case query of Some q \<Rightarrow> q | None \<Rightarrow> ''undefined'')) s
              else s))"

definition apply_filters_click :: "page_state \<Rightarrow> page_state" where
  "apply_filters_click s =
     (case getElementById ''category-filter'' of
        None \<Rightarrow> throw TypeError s
      | Some c \<Rightarrow>
          (case getElementById ''price-filter'' of
             None \<Rightarrow> throw TypeError s
           | Some p \<Rightarrow>
               (case getElementById ''in-stock-filter'' of
                  None \<Rightarrow> throw TypeError s
                | Some i \<Rightarrow> console_log (vals s c) (vals s p) (checks s i) s)))"

text \<open>
  The submit handler's first statement is \<^verbatim>\<open>e.preventDefault()\<close>; the first component
  of its result is the event's \<^verbatim>\<open>defaultPrevented\<close> flag when the handler ends.
\<close>

definition newsletter_submit :: "page_state \<Rightarrow> bool \<times> page_state" where
  "newsletter_submit s =
     (let prevented = True
      in case getElementById ''newsletter-email'' of
           None \<Rightarrow> (prevented, throw TypeError s)
         | Some inp \<Rightarrow>
             (let email = vals s inp
              in if truthy email
                 then (prevented, set_value inp '''' (alert ''Thank you for subscribing!'' s))
                 else (prevented, s)))"

subsection \<open>Listeners and events\<close>

datatype handler = AddToCart | Search | ApplyFilters | Newsletter

datatype event_kind = ClickEvent | SubmitEvent

text \<open>
  The script's top level, run once when the page is loaded: it registers the listeners
  in this order. \<^verbatim>\<open>addEventListener\<close> on null throws and ends the script; the
  listeners registered before stay.
\<close>

definition script_listeners :: "(nat \<times> event_kind \<times> handler) list" where
  "script_listeners =
     (let l1 = map (\<lambda>b. (b, ClickEvent, AddToCart)) (querySelectorAll_class ''add-to-cart'')
      in case getElementById ''search-btn'' of
           None \<Rightarrow> l1
         | Some sb \<Rightarrow>
             (let l2 = l1 @ [(sb, ClickEvent, Search)]
              in case getElementById ''apply-filters'' of
                   None \<Rightarrow> l2
                 | Some af \<Rightarrow>
                     (let l3 = l2 @ [(af, ClickEvent, ApplyFilters)]
                      in case getElementById ''newsletter-form'' of
                           None \<Rightarrow> l3
                         | Some nf \<Rightarrow> l3 @ [(nf, SubmitEvent, Newsletter)])))"

fun run_handler :: "handler \<Rightarrow> nat \<Rightarrow> bool \<times> page_state \<Rightarrow> bool \<times> page_state" where
  "run_handler AddToCart this (p, s) = (p, add_to_cart_click this s)"
| "run_handler Search this (p, s) = (p, search_click s)"
| "run_handler ApplyFilters this (p, s) = (p, apply_filters_click s)"
| "run_handler Newsletter this (p, s) = (case newsletter_submit s of (q, s') \<Rightarrow> (p \<or> q, s'))"

text \<open>
  An event of kind \<open>k\<close> dispatched at element \<open>n\<close> runs the listeners registered on \<open>n\<close>
  for \<open>k\<close>, in the order of registration. No listener's element lies inside another
  listener's element for the same kind of event, so bubbling reaches no further
  listener. The result is the event's \<^verbatim>\<open>defaultPrevented\<close> flag and the state after
  the listeners.
\<close>

fun fire :: "(nat \<times> event_kind \<times> handler) list \<Rightarrow> event_kind \<Rightarrow> nat \<Rightarrow> bool \<times> page_state \<Rightarrow> bool \<times> page_state" where
  "fire [] k n r = r"
| "fire ((m, k', h) # ls) k n r =
     fire ls k n (if m = n \<and> k' = k then run_handler h n r else r)"

definition dispatch :: "event_kind \<Rightarrow> nat \<Rightarrow> page_state \<Rightarrow> bool \<times> page_state" where
  "dispatch k n s = fire script_listeners k n (False, s)"

text \<open>
  What can happen to the page: a click event at an element, a submit event at an
  element, the user editing the value of a form control, the user ticking or clearing
  a checkbox. An element with no value property is no form control: editing it does
  nothing.
\<close>

datatype event = Click nat | Submit nat | UserInput nat string | UserCheck nat bool

fun step :: "event \<Rightarrow> page_state \<Rightarrow> page_state" where
  "step (Click n) s = snd (dispatch ClickEvent n s)"
| "step (Submit n) s = snd (dispatch SubmitEvent n s)"
| "step (UserInput n v) s = (if vals s n = None then s else s\<lparr>vals := (vals s)(n := Some v)\<rparr>)"
| "step (UserCheck n b) s = (if vals s n = None then s else s\<lparr>checks := (checks s)(n := b)\<rparr>)"

fun run :: "event list \<Rightarrow> page_state \<Rightarrow> page_state" where
  "run [] s = s"
| "run (e # es) s = run es (step e s)"

text \<open>
  What a later script or a test would read back:
  \<^verbatim>\<open>document.getElementById(i).textContent\<close> and \<^verbatim>\<open>document.getElementById(i).value\<close>
  (\<open>None\<close> when there is no such element, or it has no value).
\<close>

definition textContent_by_id :: "string \<Rightarrow> page_state \<Rightarrow> string option" where
  "textContent_by_id i s = map_option (texts s) (getElementById i)"

definition value_by_id :: "string \<Rightarrow> page_state \<Rightarrow> string option" where
  "value_by_id i s = Option.bind (getElementById i) (vals s)"

section \<open>Extraction against a schema\<close>

text \<open>
  The notebook declares two pydantic models and passes the outer one to
  \<^verbatim>\<open>page.extract\<close>:
  \<^verbatim>\<open>
  class Post(BaseModel):
      title: str
      points: int
      comments: int

  class Posts(BaseModel):
      posts: List[Post]

  res = await page.extract("find all the posts related to the topic 'AI'", schema=Posts)
  \<close>
  A schema descriptor is a type: a string, an integer, a list of one type, or an object
  with named fields, each marked required or not. A pydantic field with no default is
  required, so every field of \<open>Post\<close> and \<open>Posts\<close> is.
\<close>

datatype schema =
    TStr
  | TInt
  | TList schema
  | TObject "(string \<times> bool \<times> schema) list"

definition Post :: schema where
  "Post = TObject [(''title'', True, TStr), (''points'', True, TInt), (''comments'', True, TInt)]"

definition Posts :: schema where
  "Posts = TObject [(''posts'', True, TList Post)]"

text \<open>
  Modelled from the spec: the structured value the language-model client returns
  (\<^verbatim>\<open>complete(prompt, schema?) -> text | structuredValue\<close>); the client is an external
  collaborator and not in the source files.
\<close>

datatype json =
    JNull
  | JBool bool
  | JInt int
  | JStr string
  | JList "json list"
  | JObject "(string \<times> json) list"

text \<open>
  Modelled from the spec: a field error of the schema validator (\<^verbatim>\<open>fieldErrors[]\<close>). It
  names the field by its path from the root of the value.
\<close>

datatype field_error = Missing "string list" | WrongType "string list"

text \<open>
  Modelled from the spec: the schema validator, \<^verbatim>\<open>validate(value, schema) -> ok | fieldErrors[]\<close>,
  an external collaborator that is not in the source files. The spec says the result is
  validated field by field and that a missing required field is always a validation
  failure, never silently defaulted; \<open>[]\<close> is ok. A field that is not required may be
  absent; a field that is present has the type the schema gives it.
\<close>

fun validate :: "string list \<Rightarrow> schema \<Rightarrow> json \<Rightarrow> field_error list" where
  "validate p TStr v = (case v of JStr _ \<Rightarrow> [] | _ \<Rightarrow> [WrongType p])"
| "validate p TInt v = (case v of JInt _ \<Rightarrow> [] | _ \<Rightarrow> [WrongType p])"
| "validate p (TList t) v =
     (case v of
        JList vs \<Rightarrow> concat (map (validate p t) vs)
      | _ \<Rightarrow> [WrongType p])"
| "validate p (TObject fs) v =
     (case v of
        JObject kvs \<Rightarrow>
          concat (map (\<lambda>(k, req, t).
            case map_of kvs k of
              None \<Rightarrow> if req then [Missing (p @ [k])] else []
            | Some x \<Rightarrow> validate (p @ [k]) t x) fs)
      | _ \<Rightarrow> [WrongType p])"

text \<open>
  Modelled from the spec: what it is for a response to omit a required field. The
  function lists the required fields that a value does not have, each by its path:
  those of the object itself, of the objects in its fields and of the objects in its
  lists.
\<close>

fun omitted_required :: "string list \<Rightarrow> schema \<Rightarrow> json \<Rightarrow> string list list" where
  "omitted_required p (TObject fs) (JObject kvs) =
     concat (map (\<lambda>(k, req, t).
       case map_of kvs k of
         None \<Rightarrow> if req then [p @ [k]] else []
       | Some x \<Rightarrow> omitted_required (p @ [k]) t x) fs)"
| "omitted_required p (TList t) (JList vs) = concat (map (omitted_required p t) vs)"
| "omitted_required p _ _ = []"

text \<open>
  Modelled from the spec: the prompt sent to the language-model client (an external
  collaborator, \<^verbatim>\<open>complete(prompt, schema?)\<close>): the query, the encoding of the snapshot,
  and on the retry the validation errors of the first response, fed back as context.
\<close>

record prompt =
  query :: string
  encoding :: string
  feedback :: "field_error list"

text \<open>
  Modelled from the spec: the error kinds of the engine (spec 7). None of them is
  declared in the source files.
\<close>

datatype engine_error =
    SnapshotTimeout
  | SnapshotEmpty
  | GroundingParseError
  | GroundingNoMatch
  | ExtractionValidationError "field_error list"
  | ElementNotFound
  | ActionTimeout
  | SelfHealExhausted
  | ConfigError
  | SessionClosed

text \<open>
  Modelled from the spec: \<^verbatim>\<open>extract(query, snapshot, schema) -> ExtractionResult\<close> (spec
  4.3), which the notebook calls and the source files do not hold. It chooses the
  structural encoding of the snapshot, or the raw text when the query implies reading
  free-form text; requests a completion constrained to the schema; validates it; on
  failure retries once with the validation errors fed back; a second failure surfaces
  \<open>ExtractionValidationError\<close>. The client, the two encodings and the heuristic are
  parameters: the spec leaves them open. The model covers the calls in which the
  client answers. (\<open>extract\<close> is a keyword of Isabelle, hence the name
  \<open>extract_typed\<close>.)
\<close>

definition extract_typed ::
  "(prompt \<Rightarrow> schema \<Rightarrow> json) \<Rightarrow> (string \<Rightarrow> bool) \<Rightarrow> ('s \<Rightarrow> string) \<Rightarrow> ('s \<Rightarrow> string) \<Rightarrow>
   string \<Rightarrow> 's \<Rightarrow> schema \<Rightarrow> engine_error + json" where
  "extract_typed complete free_text structural raw_text q snapshot sch =
     (let enc = (if free_text q then raw_text snapshot else structural snapshot);
          first = complete \<lparr>query = q, encoding = enc, feedback = []\<rparr> sch
      in case validate [] sch first of
           [] \<Rightarrow> Inr first
         | e # es \<Rightarrow>
             (let second = complete \<lparr>query = q, encoding = enc, feedback = e # es\<rparr> sch
              in case validate [] sch second of
                   [] \<Rightarrow> Inr second
                 | e' # es' \<Rightarrow> Inl (ExtractionValidationError (e' # es'))))"

section \<open>Facts about the page\<close>

lemma length_page: "length page = 79"
  by (simp add: page_def product_card_def)

lemma add_to_cart_nodes: "querySelectorAll_class ''add-to-cart'' = [31, 39, 55, 63, 71]"
  by code_simp

lemma element_ids:
  "getElementById ''cart-icon'' = Some 11"
  "getElementById ''search-input'' = Some 9"
  "getElementById ''search-btn'' = Some 10"
  "getElementById ''category-filter'' = Some 18"
  "getElementById ''price-filter'' = Some 20"
  "getElementById ''in-stock-filter'' = Some 22"
  "getElementById ''apply-filters'' = Some 23"
  "getElementById ''newsletter-form'' = Some 74"
  "getElementById ''newsletter-email'' = Some 75"
  by code_simp+

lemma script_listeners_eq:
  "script_listeners =
     [(31, ClickEvent, AddToCart), (39, ClickEvent, AddToCart), (55, ClickEvent, AddToCart),
      (63, ClickEvent, AddToCart), (71, ClickEvent, AddToCart), (10, ClickEvent, Search),
      (23, ClickEvent, ApplyFilters), (74, SubmitEvent, Newsletter)]"
  by (simp add: script_listeners_def add_to_cart_nodes element_ids)

lemma add_to_cart_products:
  "map dataset_product [31, 39, 55, 63, 71] =
     [Some ''1'', Some ''2'', Some ''4'', Some ''5'', Some ''6'']"
  by code_simp

lemma has_class_iff:
  "n < length page \<and> c \<in> set (classes (page ! n)) \<longleftrightarrow> n \<in> set (querySelectorAll_class c)"
  by (auto simp: querySelectorAll_class_def)

lemma add_to_cart_iff:
  "n < length page \<and> ''add-to-cart'' \<in> set (classes (page ! n)) \<longleftrightarrow> n \<in> {31, 39, 55, 63, 71}"
  by (simp add: has_class_iff add_to_cart_nodes)

lemma dispatch_click:
  "dispatch ClickEvent n s =
     (False,
      if n \<in> {31, 39, 55, 63, 71} then add_to_cart_click n s
      else if n = 10 then search_click s
      else if n = 23 then apply_filters_click s
      else s)"
  by (simp add: dispatch_def script_listeners_eq)

lemma dispatch_submit:
  "dispatch SubmitEvent n s = (if n = 74 then newsletter_submit s else (False, s))"
  by (simp add: dispatch_def script_listeners_eq split: prod.splits)

lemma string_of_nat_0: "string_of_nat 0 = ''0''"
  by (simp add: string_of_nat.simps digit_def)

lemma init_icon: "texts init_state 11 = ''Cart (0)''"
  by (simp add: init_state_def length_page) code_simp

subsection \<open>What each handler changes\<close>

lemmas effect_defs =
  alert_def console_log_def set_textContent_def set_value_def throw_def cart_push_def

lemma add_to_cart_click_cart: "cart (add_to_cart_click n s) = cart s @ [dataset_product n]"
  by (simp add: add_to_cart_click_def element_ids effect_defs)

lemma add_to_cart_click_texts:
  "texts (add_to_cart_click n s) =
     (texts s)(11 := ''Cart ('' @ string_of_nat (Suc (length (cart s))) @ '')'')"
  by (simp add: add_to_cart_click_def element_ids effect_defs)

lemma search_click_frame:
  "cart (search_click s) = cart s" "texts (search_click s) = texts s"
  "vals (search_click s) = vals s"
  by (simp_all add: search_click_def element_ids effect_defs Let_def)

lemma apply_filters_click_frame:
  "cart (apply_filters_click s) = cart s" "texts (apply_filters_click s) = texts s"
  "vals (apply_filters_click s) = vals s"
  by (simp_all add: apply_filters_click_def element_ids effect_defs)

lemma newsletter_submit_frame:
  "cart (snd (newsletter_submit s)) = cart s" "texts (snd (newsletter_submit s)) = texts s"
  by (simp_all add: newsletter_submit_def element_ids effect_defs Let_def)

lemma step_cart:
  "cart (step e s) =
     (case e of
        Click n \<Rightarrow> if n \<in> {31, 39, 55, 63, 71} then cart s @ [dataset_product n] else cart s
      | _ \<Rightarrow> cart s)"
  by (cases e)
    (simp_all add: dispatch_click dispatch_submit add_to_cart_click_cart search_click_frame
       apply_filters_click_frame newsletter_submit_frame)

lemma step_texts:
  "texts (step e s) =
     (case e of
        Click n \<Rightarrow>
          if n \<in> {31, 39, 55, 63, 71}
          then (texts s)(11 := ''Cart ('' @ string_of_nat (Suc (length (cart s))) @ '')'')
          else texts s
      | _ \<Rightarrow> texts s)"
  by (cases e)
    (simp_all add: dispatch_click dispatch_submit add_to_cart_click_texts search_click_frame
       apply_filters_click_frame newsletter_submit_frame)

lemma dataset_product_cases:
  "n \<in> {31, 39, 55, 63, 71} \<Longrightarrow>
     dataset_product n \<in> {Some ''1'', Some ''2'', Some ''4'', Some ''5'', Some ''6''}"
  using add_to_cart_products by auto

lemma step_icon_shows_length:
  assumes "texts s 11 = ''Cart ('' @ string_of_nat (length (cart s)) @ '')''"
  shows "texts (step e s) 11 = ''Cart ('' @ string_of_nat (length (cart (step e s))) @ '')''"
  using assms by (cases e) (simp_all add: step_cart step_texts del: step.simps)

lemma step_cart_products:
  assumes "set (cart s) \<subseteq> {Some ''1'', Some ''2'', Some ''4'', Some ''5'', Some ''6''}"
  shows "set (cart (step e s)) \<subseteq> {Some ''1'', Some ''2'', Some ''4'', Some ''5'', Some ''6''}"
proof (cases e)
  case (Click n)
  show ?thesis
  proof (cases "n \<in> {31, 39, 55, 63, 71}")
    case True
    from dataset_product_cases [OF True] assms show ?thesis
      unfolding step_cart Click using True by auto
  next
    case False
    with assms show ?thesis unfolding step_cart Click by simp
  qed
qed (use assms in \<open>simp_all add: step_cart del: step.simps\<close>)

lemma run_icon_shows_length:
  "texts s 11 = ''Cart ('' @ string_of_nat (length (cart s)) @ '')'' \<Longrightarrow>
   texts (run evs s) 11 = ''Cart ('' @ string_of_nat (length (cart (run evs s))) @ '')''"
proof (induction evs arbitrary: s)
  case Nil
  then show ?case by simp
next
  case (Cons e evs)
  from Cons.IH [OF step_icon_shows_length [OF Cons.prems]] show ?case by simp
qed

lemma run_cart_products:
  "set (cart s) \<subseteq> {Some ''1'', Some ''2'', Some ''4'', Some ''5'', Some ''6''} \<Longrightarrow>
   set (cart (run evs s)) \<subseteq> {Some ''1'', Some ''2'', Some ''4'', Some ''5'', Some ''6''}"
proof (induction evs arbitrary: s)
  case Nil
  then show ?case by simp
next
  case (Cons e evs)
  from Cons.IH [OF step_cart_products [OF Cons.prems]] show ?case by simp
qed

lemma run_clicks_length:
  "set ns \<subseteq> {31, 39, 55, 63, 71} \<Longrightarrow>
   length (cart (run (map Click ns) s)) = length (cart s) + length ns"
proof (induction ns arbitrary: s)
  case Nil
  then show ?case by simp
next
  case (Cons n ns)
  then have "n \<in> {31, 39, 55, 63, 71}" and "set ns \<subseteq> {31, 39, 55, 63, 71}"
    by simp_all
  with Cons.IH [of "step (Click n) s"] show ?case
    by (simp add: step_cart del: step.simps)
qed

section \<open>The cart\<close>

lemma no_product_3: "\<forall>e \<in> set page. data_product e \<noteq> Some ''3''"
proof -
  have "list_all (\<lambda>e. data_product e \<noteq> Some ''3'') page" by code_simp
  then show ?thesis by (simp add: list_all_iff)
qed

lemma disabled_elements: "filter (\<lambda>n. disabled (page ! n)) [0..<length page] = [47]"
  by code_simp

lemma sold_out_at: "page ! 47 = sold_out_button"
  by code_simp

text \<open>
  C9. On the demo page, a click event at a button that carries the class add-to-cart
  appends exactly one entry to the cart, the button's data-product, which is one of
  1, 2, 4, 5 and 6, and rewrites the text of the cart icon to "Cart (n)" with n the new
  length of the cart. Starting from the page as loaded (empty cart, icon text
  "Cart (0)"), after any sequence of k such clicks the icon text is "Cart (k)".
  Whatever events reach the page, in any order, the cart never holds product id 3: no
  element of the page has data-product 3, and the one disabled element, the button of
  the out-of-stock product, does not carry the class add-to-cart.
\<close>

theorem add_to_cart_clicks_count:
  "(\<forall>n s. n < length page \<and> tag (page ! n) = ''button'' \<and>
      ''add-to-cart'' \<in> set (classes (page ! n)) \<longrightarrow>
      cart (step (Click n) s) = cart s @ [dataset_product n] \<and>
      dataset_product n \<in> {Some ''1'', Some ''2'', Some ''4'', Some ''5'', Some ''6''} \<and>
      textContent_by_id ''cart-icon'' (step (Click n) s) =
        Some (''Cart ('' @ string_of_nat (length (cart (step (Click n) s))) @ '')'')) \<and>
   cart init_state = [] \<and>
   (\<forall>ns. (\<forall>n \<in> set ns. n < length page \<and> tag (page ! n) = ''button'' \<and>
             ''add-to-cart'' \<in> set (classes (page ! n))) \<longrightarrow>
      length (cart (run (map Click ns) init_state)) = length ns \<and>
      textContent_by_id ''cart-icon'' (run (map Click ns) init_state) =
        Some (''Cart ('' @ string_of_nat (length ns) @ '')'')) \<and>
   (\<forall>evs. Some ''3'' \<notin> set (cart (run evs init_state))) \<and>
   (\<forall>e \<in> set page. data_product e \<noteq> Some ''3'') \<and>
   (\<forall>n. n < length page \<and> disabled (page ! n) \<longleftrightarrow> n = 47) \<and>
   page ! 47 = sold_out_button \<and>
   ''add-to-cart'' \<notin> set (classes (page ! 47))"
proof (intro conjI allI impI)
  fix n s
  assume h: "n < length page \<and> tag (page ! n) = ''button'' \<and>
    ''add-to-cart'' \<in> set (classes (page ! n))"
  then have n: "n \<in> {31, 39, 55, 63, 71}"
    using add_to_cart_iff [of n] by blast
  then show "cart (step (Click n) s) = cart s @ [dataset_product n]"
    by (simp add: step_cart del: step.simps)
  from n show "dataset_product n \<in> {Some ''1'', Some ''2'', Some ''4'', Some ''5'', Some ''6''}"
    by (rule dataset_product_cases)
  from n show "textContent_by_id ''cart-icon'' (step (Click n) s) =
      Some (''Cart ('' @ string_of_nat (length (cart (step (Click n) s))) @ '')'')"
    by (simp add: textContent_by_id_def element_ids step_cart step_texts del: step.simps)
next
  show "cart init_state = []"
    by (simp add: init_state_def)
next
  fix ns
  assume h: "\<forall>n \<in> set ns. n < length page \<and> tag (page ! n) = ''button'' \<and>
    ''add-to-cart'' \<in> set (classes (page ! n))"
  have sub: "set ns \<subseteq> {31, 39, 55, 63, 71}"
  proof
    fix n assume "n \<in> set ns"
    with h have "n < length page \<and> ''add-to-cart'' \<in> set (classes (page ! n))" by blast
    then show "n \<in> {31, 39, 55, 63, 71}" using add_to_cart_iff [of n] by blast
  qed
  have "cart init_state = []"
    by (simp add: init_state_def)
  then have start:
    "texts init_state 11 = ''Cart ('' @ string_of_nat (length (cart init_state)) @ '')''"
    by (simp add: init_icon string_of_nat_0)
  from run_clicks_length [OF sub, of init_state]
  show len: "length (cart (run (map Click ns) init_state)) = length ns"
    by (simp add: init_state_def)
  from run_icon_shows_length [OF start, of "map Click ns"] len
  show "textContent_by_id ''cart-icon'' (run (map Click ns) init_state) =
      Some (''Cart ('' @ string_of_nat (length ns) @ '')'')"
    by (simp add: textContent_by_id_def element_ids)
next
  fix evs
  have "set (cart init_state) \<subseteq> {Some ''1'', Some ''2'', Some ''4'', Some ''5'', Some ''6''}"
    by (simp add: init_state_def)
  from run_cart_products [OF this, of evs]
  show "Some ''3'' \<notin> set (cart (run evs init_state))"
    by auto
next
  show "\<forall>e \<in> set page. data_product e \<noteq> Some ''3''"
    by (rule no_product_3)
next
  fix n
  have "set (filter (\<lambda>n. disabled (page ! n)) [0..<length page]) = {47}"
    by (simp add: disabled_elements)
  then show "(n < length page \<and> disabled (page ! n)) = (n = 47)"
    by auto
next
  show "page ! 47 = sold_out_button"
    by (rule sold_out_at)
next
  show "''add-to-cart'' \<notin> set (classes (page ! 47))"
    by (simp add: sold_out_at sold_out_button_def el_def)
qed

theorem add_to_cart_clicks_count_witness:
  "31 < length page \<and> tag (page ! 31) = ''button'' \<and>
   ''add-to-cart'' \<in> set (classes (page ! 31)) \<and>
   cart (step (Click 31) init_state) = [Some ''1''] \<and>
   textContent_by_id ''cart-icon'' (step (Click 31) init_state) = Some ''Cart (1)'' \<and>
   length (cart (run (map Click [31, 39, 31]) init_state)) = 3 \<and>
   textContent_by_id ''cart-icon'' (run (map Click [31, 39, 31]) init_state) = Some ''Cart (3)''"
proof -
  have b31: "31 < length page \<and> tag (page ! 31) = ''button'' \<and>
      ''add-to-cart'' \<in> set (classes (page ! 31))"
    by code_simp
  have b39: "39 < length page \<and> tag (page ! 39) = ''button'' \<and>
      ''add-to-cart'' \<in> set (classes (page ! 39))"
    by code_simp
  have p31: "dataset_product 31 = Some ''1''"
    by code_simp
  have d: "string_of_nat (Suc 0) = ''1''" "string_of_nat (Suc (Suc (Suc 0))) = ''3''"
    by (simp_all add: string_of_nat.simps digit_def)
  have all: "\<forall>n \<in> set [31, 39, 31]. n < length page \<and> tag (page ! n) = ''button'' \<and>
      ''add-to-cart'' \<in> set (classes (page ! n))"
    using b31 b39 by simp
  from add_to_cart_clicks_count have
    one: "cart (step (Click 31) init_state) = cart init_state @ [dataset_product 31] \<and>
      textContent_by_id ''cart-icon'' (step (Click 31) init_state) =
        Some (''Cart ('' @ string_of_nat (length (cart (step (Click 31) init_state))) @ '')'')"
    and empty: "cart init_state = []"
    and three: "length (cart (run (map Click [31, 39, 31]) init_state)) = length [31, 39, 31::nat] \<and>
      textContent_by_id ''cart-icon'' (run (map Click [31, 39, 31]) init_state) =
        Some (''Cart ('' @ string_of_nat (length [31, 39, 31::nat]) @ '')'')"
    using b31 all by blast+
  from one empty three b31 p31 d show ?thesis
    by simp
qed

section \<open>The newsletter form\<close>

lemma newsletter_submit_prevented: "fst (newsletter_submit s)"
  by (simp add: newsletter_submit_def Let_def split: option.splits)

lemma newsletter_submit_truthy:
  "truthy (vals s 75) \<Longrightarrow>
   snd (newsletter_submit s) = set_value 75 '''' (alert ''Thank you for subscribing!'' s)"
  by (simp add: newsletter_submit_def element_ids Let_def)

lemma newsletter_submit_falsy: "\<not> truthy (vals s 75) \<Longrightarrow> snd (newsletter_submit s) = s"
  by (simp add: newsletter_submit_def element_ids Let_def)

lemma email_value: "value_by_id ''newsletter-email'' s = vals s 75"
  by (simp add: value_by_id_def element_ids)

text \<open>
  C10. On the demo page, every submit event at newsletter-form ends with its default
  action prevented. If the value of the newsletter-email input is not empty, the
  handler shows the alert "Thank you for subscribing!" and then sets that value to the
  empty string, and does nothing else. If the value is empty, the handler changes
  nothing, so the value stays as it was.
\<close>

theorem newsletter_submit_resets_email:
  "(\<exists>form. getElementById ''newsletter-form'' = Some form) \<and>
   (\<forall>form s. getElementById ''newsletter-form'' = Some form \<longrightarrow>
      fst (dispatch SubmitEvent form s) \<and>
      (truthy (value_by_id ''newsletter-email'' s) \<longrightarrow>
         value_by_id ''newsletter-email'' (snd (dispatch SubmitEvent form s)) = Some '''' \<and>
         (\<exists>inp. getElementById ''newsletter-email'' = Some inp \<and>
            effects (snd (dispatch SubmitEvent form s)) =
              effects s @ [Alert ''Thank you for subscribing!'', SetValue inp ''''])) \<and>
      (\<not> truthy (value_by_id ''newsletter-email'' s) \<longrightarrow>
         snd (dispatch SubmitEvent form s) = s))"
proof (intro conjI allI impI)
  show "\<exists>form. getElementById ''newsletter-form'' = Some form"
    by (simp add: element_ids)
next
  fix form s
  assume "getElementById ''newsletter-form'' = Some form"
  then have form: "form = 74"
    by (simp add: element_ids)
  show "fst (dispatch SubmitEvent form s)"
    by (simp add: form dispatch_submit newsletter_submit_prevented)
  {
    assume "truthy (value_by_id ''newsletter-email'' s)"
    then have t: "truthy (vals s 75)"
      by (simp add: email_value)
    show "value_by_id ''newsletter-email'' (snd (dispatch SubmitEvent form s)) = Some ''''"
      by (simp add: form dispatch_submit email_value newsletter_submit_truthy [OF t]
          set_value_def)
    show "\<exists>inp. getElementById ''newsletter-email'' = Some inp \<and>
        effects (snd (dispatch SubmitEvent form s)) =
          effects s @ [Alert ''Thank you for subscribing!'', SetValue inp '''']"
      by (simp add: form dispatch_submit element_ids newsletter_submit_truthy [OF t]
          set_value_def alert_def)
  }
  {
    assume "\<not> truthy (value_by_id ''newsletter-email'' s)"
    then have "\<not> truthy (vals s 75)"
      by (simp add: email_value)
    then show "snd (dispatch SubmitEvent form s) = s"
      by (simp add: form dispatch_submit newsletter_submit_falsy)
  }
qed

theorem newsletter_submit_resets_email_witness:
  "getElementById ''newsletter-form'' = Some 74 \<and>
   truthy (value_by_id ''newsletter-email'' (step (UserInput 75 ''a@b.c'') init_state)) \<and>
   fst (dispatch SubmitEvent 74 (step (UserInput 75 ''a@b.c'') init_state)) \<and>
   value_by_id ''newsletter-email''
     (snd (dispatch SubmitEvent 74 (step (UserInput 75 ''a@b.c'') init_state))) = Some '''' \<and>
   value_by_id ''newsletter-email'' init_state = Some '''' \<and>
   snd (dispatch SubmitEvent 74 init_state) = init_state"
proof -
  have form: "getElementById ''newsletter-form'' = Some 74"
    by (simp add: element_ids)
  have v0: "vals init_state 75 = Some ''''"
    by code_simp
  then have empty: "value_by_id ''newsletter-email'' init_state = Some ''''"
    by (simp add: email_value)
  then have falsy: "\<not> truthy (value_by_id ''newsletter-email'' init_state)"
    by (simp add: truthy_def)
  have filled: "truthy (value_by_id ''newsletter-email'' (step (UserInput 75 ''a@b.c'') init_state))"
    using v0 by (simp add: email_value truthy_def)
  from newsletter_submit_resets_email form filled
  have a: "fst (dispatch SubmitEvent 74 (step (UserInput 75 ''a@b.c'') init_state)) \<and>
      value_by_id ''newsletter-email''
        (snd (dispatch SubmitEvent 74 (step (UserInput 75 ''a@b.c'') init_state))) = Some ''''"
    by blast
  from newsletter_submit_resets_email form falsy
  have b: "snd (dispatch SubmitEvent 74 init_state) = init_state"
    by blast
  from form filled a empty b show ?thesis
    by simp
qed

section \<open>Extraction returns a complete result or an error\<close>

lemma validate_object:
  "set (validate p (TObject fs) (JObject kvs)) =
     (\<Union>f \<in> set fs.
        set (case map_of kvs (fst f) of
               None \<Rightarrow> (if fst (snd f) then [Missing (p @ [fst f])] else [])
             | Some x \<Rightarrow> validate (p @ [fst f]) (snd (snd f)) x))"
  by (simp add: case_prod_beta)

lemma omitted_required_object:
  "set (omitted_required p (TObject fs) (JObject kvs)) =
     (\<Union>f \<in> set fs.
        set (case map_of kvs (fst f) of
               None \<Rightarrow> (if fst (snd f) then [p @ [fst f]] else [])
             | Some x \<Rightarrow> omitted_required (p @ [fst f]) (snd (snd f)) x))"
  by (simp add: case_prod_beta)

lemma omitted_required_invalid:
  "path \<in> set (omitted_required p sch v) \<Longrightarrow> Missing path \<in> set (validate p sch v)"
proof (induction p sch v arbitrary: path rule: omitted_required.induct)
  case (1 p fs kvs)
  from "1.prems" obtain f where f: "f \<in> set fs"
    and path: "path \<in> set (case map_of kvs (fst f) of
         None \<Rightarrow> (if fst (snd f) then [p @ [fst f]] else [])
       | Some x \<Rightarrow> omitted_required (p @ [fst f]) (snd (snd f)) x)"
    unfolding omitted_required_object by blast
  have "Missing path \<in> set (case map_of kvs (fst f) of
         None \<Rightarrow> (if fst (snd f) then [Missing (p @ [fst f])] else [])
       | Some x \<Rightarrow> validate (p @ [fst f]) (snd (snd f)) x)"
  proof (cases "map_of kvs (fst f)")
    case None
    with path show ?thesis by (simp split: if_splits)
  next
    case (Some x)
    with path have here: "path \<in> set (omitted_required (p @ [fst f]) (snd (snd f)) x)"
      by simp
    have "(fst f, snd f) = f" and "(fst (snd f), snd (snd f)) = snd f"
      by simp_all
    from "1.IH" [OF f this Some here] Some show ?thesis
      by simp
  qed
  with f show ?case
    unfolding validate_object by blast
next
  case (2 p t vs)
  from "2.prems" obtain x where x: "x \<in> set vs" and "path \<in> set (omitted_required p t x)"
    by auto
  from "2.IH" [OF this] x show ?case
    by auto
qed simp_all

lemma valid_no_omission: "validate p sch v = [] \<Longrightarrow> omitted_required p sch v = []"
  using omitted_required_invalid [of _ p sch v]
  by (cases "omitted_required p sch v") auto

lemma extract_typed_result_valid:
  assumes "extract_typed complete free_text structural raw_text q snapshot sch = Inr r"
  shows "validate [] sch r = []"
proof (cases "validate [] sch (complete \<lparr>query = q,
       encoding = (if free_text q then raw_text snapshot else structural snapshot),
       feedback = []\<rparr> sch)")
  case Nil
  with assms show ?thesis
    unfolding extract_typed_def Let_def by auto
next
  case (Cons e es)
  with assms show ?thesis
    unfolding extract_typed_def Let_def by (auto split: list.splits)
qed

text \<open>
  C5. Every result the extraction returns validates fully against the schema, and
  none of the schema's required fields is absent from it. A response that omits a
  required field always fails validation, with an error that names the field. When
  the first response fails validation and the response to the one retry omits a
  required field, the call surfaces \<open>ExtractionValidationError\<close> with the retry's
  validation errors; nothing is returned and no field is defaulted.
\<close>

theorem extract_typed_complete_or_error:
  fixes complete :: "prompt \<Rightarrow> schema \<Rightarrow> json"
  shows
  "(\<forall>r. extract_typed complete free_text structural raw_text q snapshot sch = Inr r \<longrightarrow>
      validate [] sch r = [] \<and> omitted_required [] sch r = []) \<and>
   (\<forall>v path. path \<in> set (omitted_required [] sch v) \<longrightarrow>
      Missing path \<in> set (validate [] sch v)) \<and>
   (\<forall>enc first second.
      enc = (if free_text q then raw_text snapshot else structural snapshot) \<and>
      first = complete \<lparr>query = q, encoding = enc, feedback = []\<rparr> sch \<and>
      second = complete \<lparr>query = q, encoding = enc, feedback = validate [] sch first\<rparr> sch \<and>
      validate [] sch first \<noteq> [] \<and> omitted_required [] sch second \<noteq> [] \<longrightarrow>
      extract_typed complete free_text structural raw_text q snapshot sch =
        Inl (ExtractionValidationError (validate [] sch second)) \<and>
      validate [] sch second \<noteq> [])"
proof (intro conjI allI impI)
  fix r
  assume r: "extract_typed complete free_text structural raw_text q snapshot sch = Inr r"
  then show "validate [] sch r = []"
    by (rule extract_typed_result_valid)
  then show "omitted_required [] sch r = []"
    by (rule valid_no_omission)
next
  fix v path
  assume "path \<in> set (omitted_required [] sch v)"
  then show "Missing path \<in> set (validate [] sch v)"
    by (rule omitted_required_invalid)
next
  fix enc first second
  assume h: "enc = (if free_text q then raw_text snapshot else structural snapshot) \<and>
      first = complete \<lparr>query = q, encoding = enc, feedback = []\<rparr> sch \<and>
      second = complete \<lparr>query = q, encoding = enc, feedback = validate [] sch first\<rparr> sch \<and>
      validate [] sch first \<noteq> [] \<and> omitted_required [] sch second \<noteq> []"
  then obtain e es where first: "validate [] sch first = e # es"
    by (cases "validate [] sch first") auto
  from h have "validate [] sch second \<noteq> []"
    using valid_no_omission [of "[]" sch second] by blast
  then show "validate [] sch second \<noteq> []" .
  then obtain e' es' where second: "validate [] sch second = e' # es'"
    by (cases "validate [] sch second") auto
  from h first have f': "validate [] sch (complete \<lparr>query = q,
       encoding = (if free_text q then raw_text snapshot else structural snapshot),
       feedback = []\<rparr> sch) = e # es"
    by simp
  from h first second have s': "validate [] sch (complete \<lparr>query = q,
       encoding = (if free_text q then raw_text snapshot else structural snapshot),
       feedback = e # es\<rparr> sch) = e' # es'"
    by simp
  show "extract_typed complete free_text structural raw_text q snapshot sch =
      Inl (ExtractionValidationError (validate [] sch second))"
    using f' s' unfolding extract_typed_def Let_def second
    by (cases "free_text q") simp_all
qed

theorem extract_typed_complete_or_error_witness:
  "omitted_required [] Posts
     (JObject [(''posts'', JList [JObject [(''title'', JStr ''Show HN''), (''comments'', JInt 3)]])]) =
     [[''posts'', ''points'']] \<and>
   extract_typed
     (\<lambda>p s. JObject [(''posts'', JList [JObject [(''title'', JStr ''Show HN''), (''comments'', JInt 3)]])])
     (\<lambda>q. False) (\<lambda>u. []) (\<lambda>u. []) ''find all the posts related to the topic AI'' () Posts =
     Inl (ExtractionValidationError [Missing [''posts'', ''points'']]) \<and>
   extract_typed
     (\<lambda>p s. if feedback p = [] then JObject [(''title'', JStr ''Show HN'')]
            else JObject [(''title'', JStr ''Show HN''), (''points'', JInt 7)])
     (\<lambda>q. False) (\<lambda>u. []) (\<lambda>u. []) ''the top post'' ()
     (TObject [(''title'', True, TStr), (''points'', True, TInt)]) =
     Inr (JObject [(''title'', JStr ''Show HN''), (''points'', JInt 7)]) \<and>
   validate [] (TObject [(''title'', True, TStr), (''points'', True, TInt)])
     (JObject [(''title'', JStr ''Show HN''), (''points'', JInt 7)]) = [] \<and>
   extract_typed (\<lambda>p s. JObject [(''title'', JStr ''Show HN'')])
     (\<lambda>q. False) (\<lambda>u. []) (\<lambda>u. []) ''the top post'' ()
     (TObject [(''title'', True, TStr), (''points'', True, TInt)]) =
     Inl (ExtractionValidationError [Missing [''points'']])"
proof -
  let ?resp = "JObject [(''posts'', JList [JObject [(''title'', JStr ''Show HN''), (''comments'', JInt 3)]])]"
  let ?sch = "TObject [(''title'', True, TStr), (''points'', True, TInt)]"
  let ?full = "JObject [(''title'', JStr ''Show HN''), (''points'', JInt 7)]"
  have v: "validate [] Posts ?resp = [Missing [''posts'', ''points'']]"
    by (simp add: Posts_def Post_def)
  have o: "omitted_required [] Posts ?resp = [[''posts'', ''points'']]"
    by (simp add: Posts_def Post_def)
  from extract_typed_complete_or_error
    [where complete = "\<lambda>p s. ?resp" and free_text = "\<lambda>q. False" and structural = "\<lambda>u. []"
       and raw_text = "\<lambda>u. []" and q = "''find all the posts related to the topic AI''"
       and snapshot = "()" and sch = Posts]
  have a: "extract_typed (\<lambda>p s. ?resp) (\<lambda>q. False) (\<lambda>u. []) (\<lambda>u. [])
      ''find all the posts related to the topic AI'' () Posts =
      Inl (ExtractionValidationError (validate [] Posts ?resp))"
    using v o by simp
  have r: "extract_typed
     (\<lambda>p s. if feedback p = [] then JObject [(''title'', JStr ''Show HN'')] else ?full)
     (\<lambda>q. False) (\<lambda>u. []) (\<lambda>u. []) ''the top post'' () ?sch = Inr ?full"
    by (simp add: extract_typed_def)
  from extract_typed_complete_or_error
    [where complete = "\<lambda>p s. if feedback p = [] then JObject [(''title'', JStr ''Show HN'')] else ?full"
       and free_text = "\<lambda>q. False" and structural = "\<lambda>u. []"
       and raw_text = "\<lambda>u. []" and q = "''the top post''"
       and snapshot = "()" and sch = ?sch] r
  have b: "validate [] ?sch ?full = []"
    by blast
  let ?part = "JObject [(''title'', JStr ''Show HN'')]"
  have v': "validate [] ?sch ?part = [Missing [''points'']]"
    by simp
  have o': "omitted_required [] ?sch ?part = [[''points'']]"
    by simp
  from extract_typed_complete_or_error
    [where complete = "\<lambda>p s. ?part" and free_text = "\<lambda>q. False" and structural = "\<lambda>u. []"
       and raw_text = "\<lambda>u. []" and q = "''the top post''"
       and snapshot = "()" and sch = ?sch]
  have c: "extract_typed (\<lambda>p s. ?part) (\<lambda>q. False) (\<lambda>u. []) (\<lambda>u. [])
      ''the top post'' () ?sch = Inl (ExtractionValidationError (validate [] ?sch ?part))"
    using v' o' by simp
  from o a v r b c v' show ?thesis
    by simp
qed

end
